theory Spec2Isabelle
  imports Complex_Main
begin

section \<open>Errors and the library's guards\<close>

text \<open>
  Everything the TypeScript throws is a value here. An error carries the name of its class
  (what \<^verbatim>\<open>BaseError.isErrorName\<close> compares), the class that raised it (the first argument of
  every \<^verbatim>\<open>Guards\<close> call and of \<^verbatim>\<open>new NotImplementedError\<close>) and the property or method it is
  about.
\<close>

datatype BaseError = BaseError (err_name: string) (err_source: string) (err_subject: string)

definition GuardError_CLASS_NAME :: string where
  "GuardError_CLASS_NAME = ''GuardError''"

definition NotImplementedError_CLASS_NAME :: string where
  "NotImplementedError_CLASS_NAME = ''NotImplementedError''"

definition GuardError :: "string \<Rightarrow> string \<Rightarrow> BaseError" where
  "GuardError src property = BaseError GuardError_CLASS_NAME src property"

definition NotImplementedError :: "string \<Rightarrow> string \<Rightarrow> BaseError" where
  "NotImplementedError src method = BaseError NotImplementedError_CLASS_NAME src method"

definition isErrorName :: "BaseError \<Rightarrow> string \<Rightarrow> bool" where
  "isErrorName e n = (err_name e = n)"

text \<open>
  A JavaScript number is a finite value, \<^verbatim>\<open>NaN\<close>, \<^verbatim>\<open>Infinity\<close> or \<^verbatim>\<open>-Infinity\<close>. The code
  compares and carries numbers and never computes with them, so a finite value is the
  rational it denotes.
\<close>

datatype number = Finite rat | NaN | Infinity | NegInfinity

text \<open>
  A string is the list of the bytes of its UTF-8 encoding. \<^verbatim>\<open>String.prototype.trim\<close> removes
  the code points \<^verbatim>\<open>WhiteSpace\<close> and \<^verbatim>\<open>LineTerminator\<close> of ECMAScript from both ends:
  U+0009 to U+000D, U+0020, U+00A0, U+1680, U+2000 to U+200A, U+2028, U+2029, U+202F,
  U+205F, U+3000 and U+FEFF. A string is blank when it is made of these only, that is when
  nothing is left of it after \<^verbatim>\<open>trim\<close>.
\<close>

definition whitespace_codes :: "string list" where
  "whitespace_codes =
     [[CHR 0x09], [CHR 0x0A], [CHR 0x0B], [CHR 0x0C], [CHR 0x0D], [CHR 0x20],
      [CHR 0xC2, CHR 0xA0],
      [CHR 0xE1, CHR 0x9A, CHR 0x80],
      [CHR 0xE2, CHR 0x80, CHR 0x80], [CHR 0xE2, CHR 0x80, CHR 0x81],
      [CHR 0xE2, CHR 0x80, CHR 0x82], [CHR 0xE2, CHR 0x80, CHR 0x83],
      [CHR 0xE2, CHR 0x80, CHR 0x84], [CHR 0xE2, CHR 0x80, CHR 0x85],
      [CHR 0xE2, CHR 0x80, CHR 0x86], [CHR 0xE2, CHR 0x80, CHR 0x87],
      [CHR 0xE2, CHR 0x80, CHR 0x88], [CHR 0xE2, CHR 0x80, CHR 0x89],
      [CHR 0xE2, CHR 0x80, CHR 0x8A],
      [CHR 0xE2, CHR 0x80, CHR 0xA8], [CHR 0xE2, CHR 0x80, CHR 0xA9],
      [CHR 0xE2, CHR 0x80, CHR 0xAF],
      [CHR 0xE2, CHR 0x81, CHR 0x9F],
      [CHR 0xE3, CHR 0x80, CHR 0x80],
      [CHR 0xEF, CHR 0xBB, CHR 0xBF]]"

fun blank :: "string \<Rightarrow> bool" where
  "blank [] = True"
| "blank (c # cs) =
     (if [c] \<in> set whitespace_codes then blank cs
      else if take 2 (c # cs) \<in> set whitespace_codes then blank (drop 1 cs)
      else if take 3 (c # cs) \<in> set whitespace_codes then blank (drop 2 cs)
      else False)"

text \<open>
  \<^verbatim>\<open>Is\<close> and \<^verbatim>\<open>Guards\<close> are imported from the package \<^verbatim>\<open>@gtsc/core\<close>. A JavaScript value that
  may be \<^verbatim>\<open>undefined\<close> is an \<open>option\<close>, \<open>None\<close> being the absent value. \<^verbatim>\<open>Is.string\<close> accepts
  any string; \<^verbatim>\<open>Is.stringValue\<close> trims the string and accepts it when something is left;
  \<^verbatim>\<open>Is.number\<close> accepts a finite number, and neither \<^verbatim>\<open>NaN\<close> nor an infinity;
  \<^verbatim>\<open>Is.arrayValue\<close> accepts an array of length above zero. \<^verbatim>\<open>Guards.object\<close> throws a
  \<^verbatim>\<open>GuardError\<close> on the absent value, \<^verbatim>\<open>Guards.string\<close> on anything but a string,
  \<^verbatim>\<open>Guards.stringValue\<close> on anything but a string of length above zero (it does not trim),
  \<^verbatim>\<open>Guards.arrayValue\<close> on anything but an array of length above zero.
\<close>

definition Is_string :: "string option \<Rightarrow> bool" where
  "Is_string v = (v \<noteq> None)"

definition Is_stringValue :: "string option \<Rightarrow> bool" where
  "Is_stringValue v = (case v of None \<Rightarrow> False | Some s \<Rightarrow> \<not> blank s)"

definition Is_number :: "number option \<Rightarrow> bool" where
  "Is_number v = (case v of Some (Finite x) \<Rightarrow> True | _ \<Rightarrow> False)"

definition Is_arrayValue :: "'a list option \<Rightarrow> bool" where
  "Is_arrayValue v = (case v of None \<Rightarrow> False | Some xs \<Rightarrow> 0 < length xs)"

definition Guards_object :: "string \<Rightarrow> string \<Rightarrow> 'a option \<Rightarrow> BaseError + 'a" where
  "Guards_object src property v =
     (case v of None \<Rightarrow> Inl (GuardError src property) | Some x \<Rightarrow> Inr x)"

definition Guards_string :: "string \<Rightarrow> string \<Rightarrow> string option \<Rightarrow> BaseError + unit" where
  "Guards_string src property v =
     (if Is_string v then Inr () else Inl (GuardError src property))"

definition Guards_stringValue :: "string \<Rightarrow> string \<Rightarrow> string option \<Rightarrow> BaseError + unit" where
  "Guards_stringValue src property v =
     (case v of
        None \<Rightarrow> Inl (GuardError src property)
      | Some s \<Rightarrow> if 0 < length s then Inr () else Inl (GuardError src property))"

definition Guards_arrayValue :: "string \<Rightarrow> string \<Rightarrow> 'a list option \<Rightarrow> BaseError + 'a list" where
  "Guards_arrayValue src property v =
     (if Is_arrayValue v then Inr (the v) else Inl (GuardError src property))"

section \<open>Data model\<close>

text \<open>
  \<^verbatim>\<open>LogLevel\<close> is a union of string literals; at run time a level is a string, and
  \<^verbatim>\<open>Array.includes\<close> compares strings.
\<close>

type_synonym LogLevel = string

record ILogEntry =
  level :: LogLevel
  source :: string
  ts :: "number option"
  message :: string
  error :: "BaseError option"
  data :: "string option"

record IRequestContext =
  tenantId :: "string option"

record ILoggingLevelsConfig =
  levels :: "LogLevel list option"

datatype ComparisonOperator =
  Equals | NotEquals | GreaterThan | GreaterThanOrEqual | LessThan | LessThanOrEqual

datatype LogicalOperator = And | Or

datatype SortDirection = Ascending | Descending

datatype ConditionValue = StringValue string | NumberValue number

datatype EntityCondition =
    Comparator (property: string) (operator: ComparisonOperator) (cvalue: ConditionValue)
  | ConditionGroup (conditions: "EntityCondition list") (logicalOperator: LogicalOperator)

datatype SortProperty = SortProperty (sort_property: string) (sortDirection: SortDirection)

record QueryResult =
  entities :: "ILogEntry list"
  cursor :: "string option"
  pageSize :: "number option"
  totalEntities :: number

text \<open>The six arguments of one \<^verbatim>\<open>query\<close> call, as an observer of the call sees them.\<close>

record QueryArgs =
  arg_requestContext :: "IRequestContext option"
  arg_conditions :: "EntityCondition option"
  arg_sortProperties :: "SortProperty list option"
  arg_properties :: "string list option"
  arg_cursor :: "string option"
  arg_pageSize :: "number option"

section \<open>Promises and the connector interface\<close>

text \<open>
  A promise is settled, with the value it resolved to (\<open>Inr\<close>) or the error it rejected with
  (\<open>Inl\<close>), or pending: then it holds the continuation the event loop resumes later, which
  runs on the state of that moment up to the next \<^verbatim>\<open>await\<close> and leaves a promise again.
  An awaited promise is taken to settle: every continuation is resumed in the end.
\<close>

datatype ('s, 'r) promise =
    is_Settled: Settled "BaseError + 'r"
  | Pending "'s \<Rightarrow> ('s, 'r) promise \<times> 's"

text \<open>
  Awaiting one promise while nothing else runs: its continuations are resumed one after
  the other until it settles. (The recursion goes through the pair the continuation
  returns, hence \<open>map_prod\<close>: \<open>await (Pending k) s\<close> is \<open>await p s'\<close> for \<open>(p, s') = k s\<close>.)
\<close>

primrec await :: "('s, 'r) promise \<Rightarrow> 's \<Rightarrow> (BaseError + 'r) \<times> 's" where
  "await (Settled r) s = (r, s)"
| "await (Pending k) s = (case map_prod await id (k s) of (run, s') \<Rightarrow> run s')"

text \<open>
  A connector is any pair of operations on some state \<open>'s\<close> (a database, a console, a
  counter). \<^verbatim>\<open>log\<close> runs up to its first \<^verbatim>\<open>await\<close> on the state it is called in and returns a
  promise; an error thrown before that is a promise already rejected. \<^verbatim>\<open>query\<close> is only ever
  awaited alone, so it is the whole operation: the result it settles with and the state it
  leaves. A connector is handed the log entry by value: the interface returns nothing but
  an optional identifier, and an entry is not changed once a connector has it.
\<close>

record 's ILoggingConnector =
  log :: "IRequestContext option \<Rightarrow> ILogEntry option \<Rightarrow> 's \<Rightarrow> ('s, string option) promise \<times> 's"
  query :: "IRequestContext option \<Rightarrow> EntityCondition option \<Rightarrow> SortProperty list option \<Rightarrow>
            string list option \<Rightarrow> string option \<Rightarrow> number option \<Rightarrow> 's \<Rightarrow>
            (BaseError + QueryResult) \<times> 's"

text \<open>
  What a caller does to the outside is recorded as a list of events, oldest first: each
  call of a connector's \<^verbatim>\<open>log\<close> with the arguments it was given, each settling of the promise
  such a call returned, each call of a connector's \<^verbatim>\<open>query\<close> with its arguments and how it
  settled, and each reading of the clock with the value read. \<open>'k\<close> names the connector
  called: its position in \<^verbatim>\<open>_loggingConnectors\<close> for the multiplexer, \<open>unit\<close> for the service,
  which has one.
\<close>

datatype 'k event =
    LogCall 'k "IRequestContext option" "ILogEntry option"
  | LogSettled 'k "BaseError + string option"
  | QueryCall 'k QueryArgs "BaseError + QueryResult"
  | is_DateNow: DateNow int

fun callee :: "'k event \<Rightarrow> 'k option" where
  "callee (LogCall k ctx e) = Some k"
| "callee (LogSettled k r) = Some k"
| "callee (QueryCall k a r) = Some k"
| "callee (DateNow t) = None"

fun query_calls :: "'k event list \<Rightarrow> QueryArgs list" where
  "query_calls [] = []"
| "query_calls (QueryCall k a r # evs) = a # query_calls evs"
| "query_calls (ev # evs) = query_calls evs"



record ('r, 'k, 's) outcome =
  result :: "BaseError + 'r"
  events :: "'k event list"
  state :: 's

record ('r, 'k, 's) log_outcome = "('r, 'k, 's) outcome" +
  entry_after :: "ILogEntry option"

section \<open>MultiLoggingConnector\<close>

record 's MultiLoggingConnector =
  loggingConnectors :: "'s ILoggingConnector list"
  multi_levels :: "LogLevel list"

definition MultiLoggingConnector_CLASS_NAME :: string where
  "MultiLoggingConnector_CLASS_NAME = ''MultiLoggingConnector''"

record MultiOptions =
  loggingConnectorTypes :: "string list option"
  config :: "ILoggingLevelsConfig option"

text \<open>
  \<^verbatim>\<open>LoggingConnectorFactory.get\<close> is a parameter: a lookup by type name that may fail.
  \<^verbatim>\<open>Array.map\<close> calls it on the names from left to right and the first failure is thrown.
\<close>

fun factory_map :: "(string \<Rightarrow> BaseError + 'c) \<Rightarrow> string list \<Rightarrow> BaseError + 'c list" where
  "factory_map get [] = Inr []"
| "factory_map get (t # tys) =
     (case get t of
        Inl e \<Rightarrow> Inl e
      | Inr c \<Rightarrow> (case factory_map get tys of Inl e \<Rightarrow> Inl e | Inr cs \<Rightarrow> Inr (c # cs)))"

definition MultiLoggingConnector_new ::
  "(string \<Rightarrow> BaseError + 's ILoggingConnector) \<Rightarrow> MultiOptions option \<Rightarrow>
   BaseError + 's MultiLoggingConnector" where
  "MultiLoggingConnector_new get options =
     (case Guards_object MultiLoggingConnector_CLASS_NAME ''options'' options of
        Inl e \<Rightarrow> Inl e
      | Inr opts \<Rightarrow>
     (case Guards_arrayValue MultiLoggingConnector_CLASS_NAME ''options.loggingConnectorTypes''
             (loggingConnectorTypes opts) of
        Inl e \<Rightarrow> Inl e
      | Inr tys \<Rightarrow>
          (let lvls = (case config opts of
                         None \<Rightarrow> [''debug'', ''info'', ''warn'', ''error'', ''trace'']
                       | Some cfg \<Rightarrow>
                           (case levels cfg of
                              None \<Rightarrow> [''debug'', ''info'', ''warn'', ''error'', ''trace'']
                            | Some ls \<Rightarrow> ls))
           in case factory_map get tys of
                Inl e \<Rightarrow> Inl e
              | Inr cs \<Rightarrow> Inr \<lparr>loggingConnectors = cs, multi_levels = lvls\<rparr>)))"

text \<open>
  \<^verbatim>\<open>this._loggingConnectors.map(async c => c.log(requestContext, logEntry))\<close>: \<^verbatim>\<open>map\<close> calls
  \<^verbatim>\<open>log\<close> on the connectors in array order, each call running up to its first \<^verbatim>\<open>await\<close>, and
  collects the promises; every call is made whatever the earlier ones did. \<open>i\<close> is the
  position of the head of the list.
\<close>

fun start_all ::
  "nat \<Rightarrow> 's ILoggingConnector list \<Rightarrow> IRequestContext option \<Rightarrow> ILogEntry option \<Rightarrow> 's \<Rightarrow>
   nat event list \<times> ('s, string option) promise list \<times> 's" where
  "start_all i [] ctx e s = ([], [], s)"
| "start_all i (c # cs) ctx e s =
     (case log c ctx e s of
        (p, s1) \<Rightarrow>
          (case start_all (Suc i) cs ctx e s1 of
             (evs, ps, s2) \<Rightarrow>
               (LogCall i ctx e #
                  (case p of Settled r \<Rightarrow> [LogSettled i r] | Pending k \<Rightarrow> []) @ evs,
                p # ps, s2)))"

text \<open>
  \<^verbatim>\<open>await Promise.allSettled(...)\<close>: the call waits until every promise has settled, and the
  results are dropped. While it waits the event loop resumes the pending continuations in
  an order the code does not decide: \<open>sched\<close> is that order, each element the position of
  the promise whose continuation runs next (an element that names no pending promise does
  nothing). When \<open>sched\<close> is used up, the promises still pending are awaited in array order.
\<close>

definition resume ::
  "nat \<Rightarrow> ('s, string option) promise list \<Rightarrow> 's \<Rightarrow>
   nat event list \<times> ('s, string option) promise list \<times> 's" where
  "resume k ps s =
     (if k < length ps then
        (case ps ! k of
           Settled r \<Rightarrow> ([], ps, s)
         | Pending f \<Rightarrow>
             (case f s of
                (p, s') \<Rightarrow>
                  ((case p of Settled r \<Rightarrow> [LogSettled k r] | Pending g \<Rightarrow> []),
                   ps[k := p], s')))
      else ([], ps, s))"

fun drain :: "nat \<Rightarrow> ('s, string option) promise list \<Rightarrow> 's \<Rightarrow> nat event list \<times> 's" where
  "drain i [] s = ([], s)"
| "drain i (Settled r # ps) s = drain (Suc i) ps s"
| "drain i (Pending f # ps) s =
     (case await (Pending f) s of
        (r, s') \<Rightarrow>
          (case drain (Suc i) ps s' of
             (evs, s'') \<Rightarrow> (LogSettled i r # evs, s'')))"

fun allSettled ::
  "nat list \<Rightarrow> ('s, string option) promise list \<Rightarrow> 's \<Rightarrow> nat event list \<times> 's" where
  "allSettled [] ps s = drain 0 ps s"
| "allSettled (k # sched) ps s =
     (case resume k ps s of
        (evs, ps', s') \<Rightarrow>
          (case allSettled sched ps' s' of
             (evs', s'') \<Rightarrow> (evs @ evs', s'')))"

text \<open>
  \<open>now\<close> is what \<^verbatim>\<open>Date.now()\<close> returns if it is called, in milliseconds.
  \<^verbatim>\<open>logEntry.ts ??= Date.now()\<close> reads the clock only when \<^verbatim>\<open>ts\<close> is absent, and writes into
  the caller's object: \<open>entry_after\<close> is that object when the call is over.
\<close>

definition MultiLoggingConnector_log ::
  "'s MultiLoggingConnector \<Rightarrow> int \<Rightarrow> nat list \<Rightarrow> IRequestContext option \<Rightarrow> ILogEntry option \<Rightarrow>
   's \<Rightarrow> (unit, nat, 's) log_outcome" where
  "MultiLoggingConnector_log this now sched requestContext logEntry s =
     (case Guards_object MultiLoggingConnector_CLASS_NAME ''requestContext'' requestContext of
        Inl e \<Rightarrow> \<lparr>result = Inl e, events = [], state = s, entry_after = logEntry\<rparr>
      | Inr ctx \<Rightarrow>
     (case Guards_stringValue MultiLoggingConnector_CLASS_NAME ''requestContext.tenantId''
             (tenantId ctx) of
        Inl e \<Rightarrow> \<lparr>result = Inl e, events = [], state = s, entry_after = logEntry\<rparr>
      | Inr _ \<Rightarrow>
     (case Guards_object MultiLoggingConnector_CLASS_NAME ''logEntry'' logEntry of
        Inl e \<Rightarrow> \<lparr>result = Inl e, events = [], state = s, entry_after = logEntry\<rparr>
      | Inr entry \<Rightarrow>
          if level entry \<in> set (multi_levels this) then
            (case (case ts entry of
                     None \<Rightarrow> (entry\<lparr>ts := Some (Finite (of_int now))\<rparr>, [DateNow now])
                   | Some _ \<Rightarrow> (entry, [])) of
               (entry', clock) \<Rightarrow>
                 (case start_all 0 (loggingConnectors this) requestContext (Some entry') s of
                    (started, ps, s1) \<Rightarrow>
                      (case allSettled sched ps s1 of
                         (settled, s2) \<Rightarrow>
                           \<lparr>result = Inr (), events = clock @ started @ settled, state = s2,
                            entry_after = Some entry'\<rparr>)))
          else \<lparr>result = Inr (), events = [], state = s, entry_after = logEntry\<rparr>)))"

text \<open>
  The \<^verbatim>\<open>for ... of\<close> loop of \<^verbatim>\<open>query\<close>: the first connector whose \<^verbatim>\<open>query\<close> resolves ends the
  loop with its result; an error whose name is not \<^verbatim>\<open>NotImplementedError\<close> is thrown again;
  after the last connector the multiplexer throws its own \<^verbatim>\<open>NotImplementedError\<close>.
\<close>

fun query_loop ::
  "nat \<Rightarrow> 's ILoggingConnector list \<Rightarrow> QueryArgs \<Rightarrow> 's \<Rightarrow> (QueryResult, nat, 's) outcome" where
  "query_loop i [] a s =
     \<lparr>result = Inl (NotImplementedError MultiLoggingConnector_CLASS_NAME ''query''),
      events = [], state = s\<rparr>"
| "query_loop i (c # cs) a s =
     (case query c (arg_requestContext a) (arg_conditions a) (arg_sortProperties a)
             (arg_properties a) (arg_cursor a) (arg_pageSize a) s of
        (Inr r, s1) \<Rightarrow> \<lparr>result = Inr r, events = [QueryCall i a (Inr r)], state = s1\<rparr>
      | (Inl err, s1) \<Rightarrow>
          if \<not> isErrorName err NotImplementedError_CLASS_NAME then
            \<lparr>result = Inl err, events = [QueryCall i a (Inl err)], state = s1\<rparr>
          else
            (let rest = query_loop (Suc i) cs a s1
             in rest\<lparr>events := QueryCall i a (Inl err) # events rest\<rparr>))"

definition MultiLoggingConnector_query ::
  "'s MultiLoggingConnector \<Rightarrow> IRequestContext option \<Rightarrow> EntityCondition option \<Rightarrow>
   SortProperty list option \<Rightarrow> string list option \<Rightarrow> string option \<Rightarrow> number option \<Rightarrow> 's \<Rightarrow>
   (QueryResult, nat, 's) outcome" where
  "MultiLoggingConnector_query this requestContext conds sortProperties properties cur pgSize s =
     query_loop 0 (loggingConnectors this)
       \<lparr>arg_requestContext = requestContext, arg_conditions = conds,
        arg_sortProperties = sortProperties, arg_properties = properties,
        arg_cursor = cur, arg_pageSize = pgSize\<rparr> s"

section \<open>LoggingService\<close>

record 's LoggingService =
  logging :: "'s ILoggingConnector"

definition LoggingService_CLASS_NAME :: string where
  "LoggingService_CLASS_NAME = ''LoggingService''"

text \<open>
  \<^verbatim>\<open>const id = await this._connectors.logging.log(requestContext, logEntry)\<close>: the one promise
  is awaited alone.
\<close>

definition LoggingService_log ::
  "'s LoggingService \<Rightarrow> IRequestContext option \<Rightarrow> ILogEntry option \<Rightarrow> 's \<Rightarrow>
   (string option, unit, 's) outcome" where
  "LoggingService_log this requestContext logEntry s =
     (case Guards_object LoggingService_CLASS_NAME ''requestContext'' requestContext of
        Inl e \<Rightarrow> \<lparr>result = Inl e, events = [], state = s\<rparr>
      | Inr ctx \<Rightarrow>
     (case Guards_string LoggingService_CLASS_NAME ''requestContext.tenantId'' (tenantId ctx) of
        Inl e \<Rightarrow> \<lparr>result = Inl e, events = [], state = s\<rparr>
      | Inr _ \<Rightarrow>
     (case Guards_object LoggingService_CLASS_NAME ''logEntry'' logEntry of
        Inl e \<Rightarrow> \<lparr>result = Inl e, events = [], state = s\<rparr>
      | Inr _ \<Rightarrow>
          (case log (logging this) requestContext logEntry s of
             (p, s1) \<Rightarrow>
               (case await p s1 of
                  (r, s') \<Rightarrow>
                    \<lparr>result = r,
                     events = [LogCall () requestContext logEntry, LogSettled () r],
                     state = s'\<rparr>)))))"

text \<open>
  The condition \<^verbatim>\<open>query\<close> builds: an \<^verbatim>\<open>And\<close> group that starts empty and gets one comparator
  pushed for each parameter that passes its \<^verbatim>\<open>Is\<close> test, in the order of the four \<^verbatim>\<open>if\<close>s.
\<close>

definition query_condition ::
  "LogLevel option \<Rightarrow> string option \<Rightarrow> number option \<Rightarrow> number option \<Rightarrow> EntityCondition" where
  "query_condition lvl src timeStart timeEnd =
     ConditionGroup
       ((if Is_stringValue lvl then [Comparator ''level'' Equals (StringValue (the lvl))] else []) @
        (if Is_stringValue src then [Comparator ''source'' Equals (StringValue (the src))] else []) @
        (if Is_number timeStart
         then [Comparator ''ts'' GreaterThanOrEqual (NumberValue (the timeStart))] else []) @
        (if Is_number timeEnd
         then [Comparator ''ts'' LessThanOrEqual (NumberValue (the timeEnd))] else []))
       And"

definition LoggingService_query ::
  "'s LoggingService \<Rightarrow> IRequestContext option \<Rightarrow> LogLevel option \<Rightarrow> string option \<Rightarrow>
   number option \<Rightarrow> number option \<Rightarrow> string option \<Rightarrow> number option \<Rightarrow> 's \<Rightarrow>
   (QueryResult, unit, 's) outcome" where
  "LoggingService_query this requestContext lvl src timeStart timeEnd cur pgSize s =
     (case Guards_object LoggingService_CLASS_NAME ''requestContext'' requestContext of
        Inl e \<Rightarrow> \<lparr>result = Inl e, events = [], state = s\<rparr>
      | Inr ctx \<Rightarrow>
     (case Guards_string LoggingService_CLASS_NAME ''requestContext.tenantId'' (tenantId ctx) of
        Inl e \<Rightarrow> \<lparr>result = Inl e, events = [], state = s\<rparr>
      | Inr _ \<Rightarrow>
          (let a = \<lparr>arg_requestContext = requestContext,
                    arg_conditions = Some (query_condition lvl src timeStart timeEnd),
                    arg_sortProperties = Some [SortProperty ''ts'' Descending],
                    arg_properties = None, arg_cursor = cur, arg_pageSize = pgSize\<rparr>
           in case query (logging this) (arg_requestContext a) (arg_conditions a)
                     (arg_sortProperties a) (arg_properties a) (arg_cursor a) (arg_pageSize a) s of
                (Inl err, s') \<Rightarrow>
                  \<lparr>result = Inl err, events = [QueryCall () a (Inl err)], state = s'\<rparr>
              | (Inr r, s') \<Rightarrow>
                  \<lparr>result = Inr \<lparr>entities = entities r, cursor = cursor r, pageSize = pageSize r,
                                 totalEntities = totalEntities r\<rparr>,
                   events = [QueryCall () a (Inr r)], state = s'\<rparr>)))"

section \<open>Connectors to run the operations on\<close>

text \<open>
  Four connectors over a journal of lines, one line appended for each step that runs. The
  first stores entries and answers queries; the second is the console connector, whose
  \<^verbatim>\<open>query\<close> throws \<^verbatim>\<open>NotImplementedError\<close>; the third fails in both operations with an error of
  another name; the fourth is a store that is slow to write: its \<^verbatim>\<open>log\<close> notes the start,
  awaits, and writes the entry when it is resumed.
\<close>

definition memory_connector :: "string \<Rightarrow> string list ILoggingConnector" where
  "memory_connector tag =
     \<lparr>log = (\<lambda>ctx e s. (Settled (Inr None), s @ [tag @ '':log''])),
      query = (\<lambda>ctx conds sortProperties properties cur pgSize s.
                 (Inr \<lparr>entities = [], cursor = None, pageSize = pgSize,
                       totalEntities = Finite 0\<rparr>,
                  s @ [tag @ '':query'']))\<rparr>"

definition console_connector :: "string list ILoggingConnector" where
  "console_connector =
     \<lparr>log = (\<lambda>ctx e s. (Settled (Inr None), s @ [''console:log''])),
      query = (\<lambda>ctx conds sortProperties properties cur pgSize s.
                 (Inl (NotImplementedError ''ConsoleLoggingConnector'' ''query''),
                  s @ [''console:query'']))\<rparr>"

definition broken_connector :: "string list ILoggingConnector" where
  "broken_connector =
     \<lparr>log = (\<lambda>ctx e s. (Settled (Inl (BaseError ''GeneralError'' ''BrokenConnector'' ''log'')),
                            s @ [''broken:log''])),
      query = (\<lambda>ctx conds sortProperties properties cur pgSize s.
                 (Inl (BaseError ''GeneralError'' ''BrokenConnector'' ''query''),
                  s @ [''broken:query'']))\<rparr>"

definition slow_connector :: "string \<Rightarrow> string list ILoggingConnector" where
  "slow_connector tag =
     \<lparr>log = (\<lambda>ctx e s.
                (Pending (\<lambda>s'. (Settled (Inr None), s' @ [tag @ '':log''])),
                 s @ [tag @ '':start''])),
      query = (\<lambda>ctx conds sortProperties properties cur pgSize s.
                 (Inr \<lparr>entities = [], cursor = None, pageSize = pgSize,
                       totalEntities = Finite 0\<rparr>,
                  s @ [tag @ '':query'']))\<rparr>"

definition tenant_context :: IRequestContext where
  "tenant_context = \<lparr>tenantId = Some ''tenant-1''\<rparr>"

definition sample_entry :: "LogLevel \<Rightarrow> number option \<Rightarrow> ILogEntry" where
  "sample_entry lvl t =
     \<lparr>level = lvl, source = ''auth'', ts = t, message = ''hello'', error = None, data = None\<rparr>"

definition warn_error_multi :: "string list MultiLoggingConnector" where
  "warn_error_multi =
     \<lparr>loggingConnectors = [memory_connector ''a'', broken_connector, memory_connector ''c''],
      multi_levels = [''warn'', ''error'']\<rparr>"

definition slow_multi :: "string list MultiLoggingConnector" where
  "slow_multi =
     \<lparr>loggingConnectors = [slow_connector ''a'', broken_connector, slow_connector ''c''],
      multi_levels = [''warn'', ''error'']\<rparr>"

definition console_first_multi :: "string list MultiLoggingConnector" where
  "console_first_multi =
     \<lparr>loggingConnectors = [console_connector, memory_connector ''db'', broken_connector],
      multi_levels = [''debug'', ''info'', ''warn'', ''error'', ''trace'']\<rparr>"

definition consoles_multi :: "string list MultiLoggingConnector" where
  "consoles_multi =
     \<lparr>loggingConnectors = [console_connector, console_connector],
      multi_levels = [''debug'', ''info'', ''warn'', ''error'', ''trace'']\<rparr>"

definition broken_second_multi :: "string list MultiLoggingConnector" where
  "broken_second_multi =
     \<lparr>loggingConnectors = [console_connector, broken_connector, memory_connector ''db''],
      multi_levels = [''debug'', ''info'', ''warn'', ''error'', ''trace'']\<rparr>"

definition memory_service :: "string list LoggingService" where
  "memory_service = \<lparr>logging = memory_connector ''db''\<rparr>"

section \<open>The condition the specification describes\<close>

text \<open>
  The filter as the specification words it: an \<^verbatim>\<open>And\<close> group with one clause for each
  parameter that is supplied, none for a parameter that is omitted.
\<close>

definition claimed_condition ::
  "LogLevel option \<Rightarrow> string option \<Rightarrow> number option \<Rightarrow> number option \<Rightarrow> EntityCondition" where
  "claimed_condition lvl src timeStart timeEnd =
     ConditionGroup
       ((case lvl of None \<Rightarrow> [] | Some l \<Rightarrow> [Comparator ''level'' Equals (StringValue l)]) @
        (case src of None \<Rightarrow> [] | Some x \<Rightarrow> [Comparator ''source'' Equals (StringValue x)]) @
        (case timeStart of
           None \<Rightarrow> [] | Some t \<Rightarrow> [Comparator ''ts'' GreaterThanOrEqual (NumberValue t)]) @
        (case timeEnd of
           None \<Rightarrow> [] | Some t \<Rightarrow> [Comparator ''ts'' LessThanOrEqual (NumberValue t)]))
       And"

definition claimed_query_args ::
  "IRequestContext option \<Rightarrow> LogLevel option \<Rightarrow> string option \<Rightarrow> number option \<Rightarrow>
   number option \<Rightarrow> string option \<Rightarrow> number option \<Rightarrow> QueryArgs" where
  "claimed_query_args requestContext lvl src timeStart timeEnd cur pgSize =
     \<lparr>arg_requestContext = requestContext,
      arg_conditions = Some (claimed_condition lvl src timeStart timeEnd),
      arg_sortProperties = Some [SortProperty ''ts'' Descending],
      arg_properties = None, arg_cursor = cur, arg_pageSize = pgSize\<rparr>"

text \<open>
  A string parameter that is empty or all white space, and a number parameter that is
  \<^verbatim>\<open>NaN\<close> or infinite, read as omitted.
\<close>

definition nonblank :: "string option \<Rightarrow> string option" where
  "nonblank v = (case v of None \<Rightarrow> None | Some x \<Rightarrow> if blank x then None else Some x)"

definition finite_only :: "number option \<Rightarrow> number option" where
  "finite_only v = (case v of Some (Finite x) \<Rightarrow> Some (Finite x) | _ \<Rightarrow> None)"

text \<open>
  A call that fails validation: it throws a \<^verbatim>\<open>GuardError\<close>, no connector operation has
  run and the state is as it was.
\<close>

definition rejected :: "('r, 'k, 's, 'z) outcome_scheme \<Rightarrow> 's \<Rightarrow> bool" where
  "rejected out s =
     ((case result out of Inl e \<Rightarrow> isErrorName e GuardError_CLASS_NAME | Inr _ \<Rightarrow> False) \<and>
      events out = [] \<and> state out = s)"

definition tenant_missing :: "IRequestContext option \<Rightarrow> bool" where
  "tenant_missing requestContext =
     (case requestContext of None \<Rightarrow> True | Some ctx \<Rightarrow> tenantId ctx = None)"

definition tenant_missing_or_empty :: "IRequestContext option \<Rightarrow> bool" where
  "tenant_missing_or_empty requestContext =
     (case requestContext of
        None \<Rightarrow> True
      | Some ctx \<Rightarrow> tenantId ctx = None \<or> tenantId ctx = Some [])"

section \<open>Lemmas on promises, the fan-out and the probing loop\<close>

lemmas guards_defs =
  Guards_object_def Guards_string_def Guards_stringValue_def Is_string_def
  GuardError_def isErrorName_def GuardError_CLASS_NAME_def

lemmas fixture_defs =
  warn_error_multi_def slow_multi_def memory_connector_def console_connector_def
  broken_connector_def slow_connector_def tenant_context_def sample_entry_def
  console_first_multi_def consoles_multi_def broken_second_multi_def memory_service_def

lemma await_Pending: "await (Pending k) s = (case k s of (p, s') \<Rightarrow> await p s')"
  by (simp add: split_beta)



lemma filter_DateNow_append_settled:
  "filter is_DateNow (case p of Settled r \<Rightarrow> [LogSettled i r] | Pending k \<Rightarrow> []) = []"
  by (cases p) simp_all



lemma start_all_no_clock: "filter is_DateNow (fst (start_all i cs ctx e s)) = []"
  by (induction cs arbitrary: i s) (simp_all add: split_beta filter_DateNow_append_settled)

lemma resume_no_clock: "filter is_DateNow (fst (resume k ps s)) = []"
  by (simp add: resume_def split_beta split: promise.splits)

lemma drain_no_clock: "filter is_DateNow (fst (drain i ps s)) = []"
proof (induction ps arbitrary: i s)
  case Nil
  show ?case by simp
next
  case (Cons p ps)
  show ?case
    by (cases p) (simp_all add: split_beta Cons.IH del: await.simps)
qed

lemma allSettled_no_clock: "filter is_DateNow (fst (allSettled sched ps s)) = []"
  by (induction sched arbitrary: ps s) (simp_all add: split_beta resume_no_clock drain_no_clock)











lemma multi_log_enabled:
  assumes "\<not> tenant_missing_or_empty (Some ctx)" and "level e \<in> set (multi_levels this)"
  shows "MultiLoggingConnector_log this now sched (Some ctx) (Some e) s =
           (case (case ts e of
                    None \<Rightarrow> (e\<lparr>ts := Some (Finite (of_int now))\<rparr>, [DateNow now])
                  | Some _ \<Rightarrow> (e, [])) of
              (e', clock) \<Rightarrow>
                (case start_all 0 (loggingConnectors this) (Some ctx) (Some e') s of
                   (started, ps, s1) \<Rightarrow>
                     (case allSettled sched ps s1 of
                        (settled, s2) \<Rightarrow>
                          \<lparr>result = Inr (), events = clock @ started @ settled, state = s2,
                           entry_after = Some e'\<rparr>)))"
  using assms
  by (auto simp: MultiLoggingConnector_log_def Guards_object_def Guards_stringValue_def
      tenant_missing_or_empty_def split: option.splits)

text \<open>The constructor keeps the order of the type names.\<close>

lemma factory_map_order:
  "factory_map get tys = Inr cs \<Longrightarrow> map get tys = map Inr cs"
  by (induction tys arbitrary: cs) (auto split: sum.splits)

lemma MultiLoggingConnector_new_order:
  assumes "MultiLoggingConnector_new get (Some opts) = Inr m"
  shows "map get (the (loggingConnectorTypes opts)) = map Inr (loggingConnectors m)"
proof -
  from assms obtain cs where
    "factory_map get (the (loggingConnectorTypes opts)) = Inr cs" and "loggingConnectors m = cs"
    by (auto simp: MultiLoggingConnector_new_def Guards_object_def Guards_arrayValue_def Let_def
        split: sum.splits if_splits)
  then show ?thesis
    using factory_map_order by blast
qed

lemma query_loop_callees:
  "map callee (events (query_loop i cs a s)) =
     map Some [i..<i + length (events (query_loop i cs a s))]"
proof (induction cs arbitrary: i s)
  case Nil
  show ?case by simp
next
  case (Cons c cs)
  show ?case
    using Cons.IH [of "Suc i"]
    by (simp add: upt_conv_Cons Let_def split: prod.splits sum.splits del: upt_Suc)
qed

lemma query_loop_all_not_implemented:
  assumes "\<forall>c \<in> set cs. \<forall>s'. \<exists>err.
             fst (query c (arg_requestContext a) (arg_conditions a) (arg_sortProperties a)
                    (arg_properties a) (arg_cursor a) (arg_pageSize a) s') = Inl err \<and>
             isErrorName err NotImplementedError_CLASS_NAME"
  shows "result (query_loop i cs a s) =
           Inl (NotImplementedError MultiLoggingConnector_CLASS_NAME ''query'') \<and>
         events (query_loop i cs a s) =
           map (\<lambda>j. QueryCall (i + j) a
                  (fst (query (cs ! j) (arg_requestContext a) (arg_conditions a)
                     (arg_sortProperties a) (arg_properties a) (arg_cursor a) (arg_pageSize a)
                     (foldl (\<lambda>s' c. snd (query c (arg_requestContext a) (arg_conditions a)
                        (arg_sortProperties a) (arg_properties a) (arg_cursor a) (arg_pageSize a)
                        s')) s (take j cs)))))
             [0..<length cs] \<and>
         state (query_loop i cs a s) =
           foldl (\<lambda>s' c. snd (query c (arg_requestContext a) (arg_conditions a)
              (arg_sortProperties a) (arg_properties a) (arg_cursor a) (arg_pageSize a) s')) s cs"
  using assms
proof (induction cs arbitrary: i s)
  case Nil
  show ?case by simp
next
  case (Cons c cs)
  from Cons.prems have "\<exists>err.
      fst (query c (arg_requestContext a) (arg_conditions a) (arg_sortProperties a)
              (arg_properties a) (arg_cursor a) (arg_pageSize a) s) = Inl err \<and>
      isErrorName err NotImplementedError_CLASS_NAME"
    by simp
  then obtain err where
    c: "fst (query c (arg_requestContext a) (arg_conditions a) (arg_sortProperties a)
              (arg_properties a) (arg_cursor a) (arg_pageSize a) s) = Inl err"
    and ni: "isErrorName err NotImplementedError_CLASS_NAME"
    by blast
  have rest: "\<forall>c \<in> set cs. \<forall>s'. \<exists>err.
             fst (query c (arg_requestContext a) (arg_conditions a) (arg_sortProperties a)
                    (arg_properties a) (arg_cursor a) (arg_pageSize a) s') = Inl err \<and>
             isErrorName err NotImplementedError_CLASS_NAME"
    using Cons.prems by simp
  from c obtain s1 where
    q: "query c (arg_requestContext a) (arg_conditions a) (arg_sortProperties a)
              (arg_properties a) (arg_cursor a) (arg_pageSize a) s = (Inl err, s1)"
    by (cases "query c (arg_requestContext a) (arg_conditions a) (arg_sortProperties a)
              (arg_properties a) (arg_cursor a) (arg_pageSize a) s") simp
  show ?case
    using q ni Cons.IH [OF rest, of "Suc i" s1]
    by (simp add: Let_def map_upt_Suc del: upt_Suc)
qed


lemma service_query_run:
  assumes "tenantId ctx \<noteq> None"
  shows "LoggingService_query service (Some ctx) lvl src timeStart timeEnd cur pgSize s =
         (case query (logging service) (Some ctx)
                 (Some (query_condition lvl src timeStart timeEnd))
                 (Some [SortProperty ''ts'' Descending]) None cur pgSize s of
            (r, s') \<Rightarrow>
              \<lparr>result = r,
               events = [QueryCall ()
                  \<lparr>arg_requestContext = Some ctx,
                   arg_conditions = Some (query_condition lvl src timeStart timeEnd),
                   arg_sortProperties = Some [SortProperty ''ts'' Descending],
                   arg_properties = None, arg_cursor = cur, arg_pageSize = pgSize\<rparr> r],
               state = s'\<rparr>)"
  using assms
  by (simp add: LoggingService_query_def Guards_object_def Guards_string_def Is_string_def
      Let_def split: prod.splits sum.splits)

lemma query_condition_claimed:
  "query_condition lvl src timeStart timeEnd =
     claimed_condition (nonblank lvl) (nonblank src) (finite_only timeStart)
       (finite_only timeEnd)"
  by (simp add: query_condition_def claimed_condition_def nonblank_def finite_only_def
      Is_stringValue_def Is_number_def split: option.splits number.splits)

section \<open>LoggingService.query: the filter, the sort order, the projection\<close>

text \<open>
  An empty string given as \<^verbatim>\<open>source\<close> fails \<^verbatim>\<open>Is.stringValue\<close>, so the call with level
  \<^verbatim>\<open>"error"\<close>, source \<^verbatim>\<open>""\<close>, \<^verbatim>\<open>timeStart = 100\<close> and \<^verbatim>\<open>timeEnd = 200\<close> hands the connector three
  clauses, not the four that one clause for each supplied parameter would give.
\<close>

theorem service_query_empty_source_has_no_clause:
  "query_calls (events (LoggingService_query memory_service (Some tenant_context)
       (Some ''error'') (Some '''') (Some (Finite 100)) (Some (Finite 200)) None None [])) =
     [\<lparr>arg_requestContext = Some tenant_context,
       arg_conditions = Some (ConditionGroup
         [Comparator ''level'' Equals (StringValue ''error''),
          Comparator ''ts'' GreaterThanOrEqual (NumberValue (Finite 100)),
          Comparator ''ts'' LessThanOrEqual (NumberValue (Finite 200))] And),
       arg_sortProperties = Some [SortProperty ''ts'' Descending],
       arg_properties = None, arg_cursor = None, arg_pageSize = None\<rparr>] \<and>
   query_calls (events (LoggingService_query memory_service (Some tenant_context)
       (Some ''error'') (Some '''') (Some (Finite 100)) (Some (Finite 200)) None None [])) \<noteq>
     [claimed_query_args (Some tenant_context) (Some ''error'') (Some '''') (Some (Finite 100))
        (Some (Finite 200)) None None]"
  by (simp add: LoggingService_query_def query_condition_def claimed_query_args_def
      claimed_condition_def guards_defs fixture_defs Is_number_def Is_stringValue_def
      whitespace_codes_def)

text \<open>
  C1, amended. For every call of \<^verbatim>\<open>LoggingService.query\<close> whose context carries a tenant id,
  the call is the connector's \<^verbatim>\<open>query\<close>, called once: its result and the state it leaves are
  the call's. The filter the connector is given is an \<^verbatim>\<open>And\<close> group with exactly one clause
  for each supplied parameter, in the order level equals, source equals,
  \<^verbatim>\<open>ts >= timeStart\<close>, \<^verbatim>\<open>ts <= timeEnd\<close>, where a level or source that is empty or all white
  space and a \<^verbatim>\<open>timeStart\<close> or \<^verbatim>\<open>timeEnd\<close> that is \<^verbatim>\<open>NaN\<close> or infinite count as omitted; an
  omitted parameter adds no clause. The sort specification is the one entry \<^verbatim>\<open>ts\<close>
  descending and no projection is requested.
\<close>

theorem service_query_builds_condition:
  assumes "tenantId ctx \<noteq> None"
  shows "LoggingService_query service (Some ctx) lvl src timeStart timeEnd cur pgSize s =
         (case query (logging service) (Some ctx)
                 (Some (claimed_condition (nonblank lvl) (nonblank src) (finite_only timeStart)
                    (finite_only timeEnd)))
                 (Some [SortProperty ''ts'' Descending]) None cur pgSize s of
            (r, s') \<Rightarrow>
              \<lparr>result = r,
               events = [QueryCall () (claimed_query_args (Some ctx) (nonblank lvl) (nonblank src)
                           (finite_only timeStart) (finite_only timeEnd) cur pgSize) r],
               state = s'\<rparr>)"
  using service_query_run [OF assms, of service lvl src timeStart timeEnd cur pgSize s]
  by (simp add: claimed_query_args_def query_condition_claimed)

theorem service_query_builds_condition_witness:
  "tenantId tenant_context \<noteq> None \<and>
   LoggingService_query memory_service (Some tenant_context)
       (Some ''error'') (Some ''auth'') (Some (Finite 100)) (Some (Finite 200)) None None [] =
     \<lparr>result = Inr \<lparr>entities = [], cursor = None, pageSize = None, totalEntities = Finite 0\<rparr>,
      events =
        [QueryCall ()
           \<lparr>arg_requestContext = Some tenant_context,
            arg_conditions = Some (ConditionGroup
              [Comparator ''level'' Equals (StringValue ''error''),
               Comparator ''source'' Equals (StringValue ''auth''),
               Comparator ''ts'' GreaterThanOrEqual (NumberValue (Finite 100)),
               Comparator ''ts'' LessThanOrEqual (NumberValue (Finite 200))] And),
            arg_sortProperties = Some [SortProperty ''ts'' Descending],
            arg_properties = None, arg_cursor = None, arg_pageSize = None\<rparr>
           (Inr \<lparr>entities = [], cursor = None, pageSize = None, totalEntities = Finite 0\<rparr>)],
      state = [''db:query'']\<rparr> \<and>
   query_calls (events (LoggingService_query memory_service (Some tenant_context)
       (Some ''error'') None (Some (Finite 100)) (Some (Finite 200)) None None [])) =
     [\<lparr>arg_requestContext = Some tenant_context,
       arg_conditions = Some (ConditionGroup
         [Comparator ''level'' Equals (StringValue ''error''),
          Comparator ''ts'' GreaterThanOrEqual (NumberValue (Finite 100)),
          Comparator ''ts'' LessThanOrEqual (NumberValue (Finite 200))] And),
       arg_sortProperties = Some [SortProperty ''ts'' Descending],
       arg_properties = None, arg_cursor = None, arg_pageSize = None\<rparr>] \<and>
   query_calls (events (LoggingService_query memory_service (Some tenant_context)
       (Some ''error'') (Some '' '') (Some NaN) (Some (Finite 200)) None None [])) =
     [\<lparr>arg_requestContext = Some tenant_context,
       arg_conditions = Some (ConditionGroup
         [Comparator ''level'' Equals (StringValue ''error''),
          Comparator ''ts'' LessThanOrEqual (NumberValue (Finite 200))] And),
       arg_sortProperties = Some [SortProperty ''ts'' Descending],
       arg_properties = None, arg_cursor = None, arg_pageSize = None\<rparr>]"
proof -
  have h: "tenantId tenant_context \<noteq> None"
    by (simp add: tenant_context_def)
  have blanks: "\<not> blank ''error''" "\<not> blank ''auth''" "blank '' ''"
    by (simp_all add: whitespace_codes_def)
  show ?thesis
    using h
      service_query_builds_condition [OF h, of memory_service "Some ''error''" "Some ''auth''"
        "Some (Finite 100)" "Some (Finite 200)" None None "[]"]
      service_query_builds_condition [OF h, of memory_service "Some ''error''" None
        "Some (Finite 100)" "Some (Finite 200)" None None "[]"]
      service_query_builds_condition [OF h, of memory_service "Some ''error''" "Some '' ''"
        "Some NaN" "Some (Finite 200)" None None "[]"]
    by (simp add: claimed_query_args_def claimed_condition_def nonblank_def finite_only_def
        blanks memory_service_def memory_connector_def del: blank.simps)
qed

text \<open>
  C10. When \<^verbatim>\<open>LoggingService.query\<close> is called with level, source, \<^verbatim>\<open>timeStart\<close> and \<^verbatim>\<open>timeEnd\<close>
  all omitted (and a context that carries a tenant id), the call is the connector's
  \<^verbatim>\<open>query\<close> applied to a condition that is present, an \<^verbatim>\<open>And\<close> group whose list of clauses is
  empty, and to an absent projection. Whatever the four parameters are, the projection the
  connector's \<^verbatim>\<open>query\<close> is applied to is absent.
\<close>

theorem service_query_no_filters_passes_empty_group:
  assumes "tenantId ctx \<noteq> None"
  shows "LoggingService_query service (Some ctx) None None None None cur pgSize s =
         (case query (logging service) (Some ctx) (Some (ConditionGroup [] And))
                 (Some [SortProperty ''ts'' Descending]) None cur pgSize s of
            (r, s') \<Rightarrow>
              \<lparr>result = r,
               events = [QueryCall ()
                  \<lparr>arg_requestContext = Some ctx,
                   arg_conditions = Some (ConditionGroup [] And),
                   arg_sortProperties = Some [SortProperty ''ts'' Descending],
                   arg_properties = None, arg_cursor = cur, arg_pageSize = pgSize\<rparr> r],
               state = s'\<rparr>) \<and>
         LoggingService_query service (Some ctx) lvl src timeStart timeEnd cur pgSize s =
         (case query (logging service) (Some ctx)
                 (Some (query_condition lvl src timeStart timeEnd))
                 (Some [SortProperty ''ts'' Descending]) None cur pgSize s of
            (r, s') \<Rightarrow>
              \<lparr>result = r,
               events = [QueryCall ()
                  \<lparr>arg_requestContext = Some ctx,
                   arg_conditions = Some (query_condition lvl src timeStart timeEnd),
                   arg_sortProperties = Some [SortProperty ''ts'' Descending],
                   arg_properties = None, arg_cursor = cur, arg_pageSize = pgSize\<rparr> r],
               state = s'\<rparr>)"
proof -
  have empty: "query_condition None None None None = ConditionGroup [] And"
    by (simp add: query_condition_def Is_stringValue_def Is_number_def)
  show ?thesis
    using service_query_run [OF assms, of service None None None None cur pgSize s]
      service_query_run [OF assms, of service lvl src timeStart timeEnd cur pgSize s]
    by (simp add: empty)
qed

theorem service_query_no_filters_passes_empty_group_witness:
  "tenantId tenant_context \<noteq> None \<and>
   LoggingService_query memory_service (Some tenant_context) None None None None None
       (Some (Finite 25)) [''earlier''] =
     \<lparr>result = Inr \<lparr>entities = [], cursor = None, pageSize = Some (Finite 25),
                     totalEntities = Finite 0\<rparr>,
      events =
        [QueryCall ()
           \<lparr>arg_requestContext = Some tenant_context,
            arg_conditions = Some (ConditionGroup [] And),
            arg_sortProperties = Some [SortProperty ''ts'' Descending],
            arg_properties = None, arg_cursor = None, arg_pageSize = Some (Finite 25)\<rparr>
           (Inr \<lparr>entities = [], cursor = None, pageSize = Some (Finite 25),
                  totalEntities = Finite 0\<rparr>)],
      state = [''earlier'', ''db:query'']\<rparr>"
proof -
  have h: "tenantId tenant_context \<noteq> None"
    by (simp add: tenant_context_def)
  show ?thesis
    using h service_query_no_filters_passes_empty_group [OF h, of memory_service None
        "Some (Finite 25)" "[''earlier'']" None None None None]
    by (simp add: memory_service_def memory_connector_def)
qed

section \<open>MultiLoggingConnector.log\<close>

text \<open>
  C2. For every log entry whose level is not in the multiplexer's enabled levels,
  \<^verbatim>\<open>MultiLoggingConnector.log\<close> calls no sub-connector: nothing is recorded, the state and the
  entry are as they were, and with a context that carries a non-empty tenant id the call
  succeeds.
\<close>

theorem multi_log_disabled_level_discarded:
  assumes "level e \<notin> set (multi_levels this)"
  shows "events (MultiLoggingConnector_log this now sched requestContext (Some e) s) = [] \<and>
         state (MultiLoggingConnector_log this now sched requestContext (Some e) s) = s \<and>
         entry_after (MultiLoggingConnector_log this now sched requestContext (Some e) s) =
           Some e \<and>
         (\<not> tenant_missing_or_empty requestContext \<longrightarrow>
            result (MultiLoggingConnector_log this now sched requestContext (Some e) s) = Inr ())"
  using assms
  by (cases requestContext)
     (auto simp: MultiLoggingConnector_log_def Guards_object_def Guards_stringValue_def
        tenant_missing_or_empty_def split: option.splits)

theorem multi_log_disabled_level_discarded_witness:
  "level (sample_entry ''debug'' None) \<notin> set (multi_levels warn_error_multi) \<and>
   \<not> tenant_missing_or_empty (Some tenant_context) \<and>
   MultiLoggingConnector_log warn_error_multi 1000 [] (Some tenant_context)
       (Some (sample_entry ''debug'' None)) [''earlier''] =
     \<lparr>result = Inr (), events = [], state = [''earlier''],
      entry_after = Some (sample_entry ''debug'' None)\<rparr>"
proof -
  have h1: "level (sample_entry ''debug'' None) \<notin> set (multi_levels warn_error_multi)"
    by (simp add: sample_entry_def warn_error_multi_def)
  have h2: "\<not> tenant_missing_or_empty (Some tenant_context)"
    by (simp add: tenant_missing_or_empty_def tenant_context_def)
  show ?thesis
    using h1 h2 multi_log_disabled_level_discarded [OF h1, of 1000 "[]" "Some tenant_context"
        "[''earlier'']"]
    by (cases "MultiLoggingConnector_log warn_error_multi 1000 [] (Some tenant_context)
          (Some (sample_entry ''debug'' None)) [''earlier'']") simp
qed

text \<open>
  An entry of level \<^verbatim>\<open>debug\<close> with no timestamp, logged through a multiplexer that enables
  \<^verbatim>\<open>warn\<close> and \<^verbatim>\<open>error\<close> only: the call succeeds and the entry still has no timestamp.
\<close>

theorem multi_log_disabled_level_leaves_no_timestamp:
  "ts (sample_entry ''debug'' None) = None \<and>
   result (MultiLoggingConnector_log warn_error_multi 1000 [] (Some tenant_context)
       (Some (sample_entry ''debug'' None)) []) = Inr () \<and>
   map_option ts (entry_after (MultiLoggingConnector_log warn_error_multi 1000 []
       (Some tenant_context) (Some (sample_entry ''debug'' None)) [])) = Some None"
  by (simp add: MultiLoggingConnector_log_def guards_defs fixture_defs)

text \<open>
  C3, amended. For every log entry with no initial timestamp whose level is enabled, logged
  with a context that carries a non-empty tenant id: after \<^verbatim>\<open>MultiLoggingConnector.log\<close>
  completes the entry carries the current time as its timestamp, and the clock has been
  read exactly once, before any sub-connector is called.
\<close>

theorem multi_log_stamps_missing_timestamp:
  assumes "\<not> tenant_missing_or_empty (Some ctx)" and "level e \<in> set (multi_levels this)"
    and "ts e = None"
  shows "result (MultiLoggingConnector_log this now sched (Some ctx) (Some e) s) = Inr () \<and>
         entry_after (MultiLoggingConnector_log this now sched (Some ctx) (Some e) s) =
           Some (e\<lparr>ts := Some (Finite (of_int now))\<rparr>) \<and>
         take 1 (events (MultiLoggingConnector_log this now sched (Some ctx) (Some e) s)) =
           [DateNow now] \<and>
         filter is_DateNow
             (events (MultiLoggingConnector_log this now sched (Some ctx) (Some e) s)) =
           [DateNow now]"
  using assms(3)
  by (simp add: multi_log_enabled [OF assms(1,2)] split_beta start_all_no_clock
      allSettled_no_clock)

theorem multi_log_stamps_missing_timestamp_witness:
  "\<not> tenant_missing_or_empty (Some tenant_context) \<and>
   level (sample_entry ''error'' None) \<in> set (multi_levels warn_error_multi) \<and>
   ts (sample_entry ''error'' None) = None \<and>
   entry_after (MultiLoggingConnector_log warn_error_multi 1000 [] (Some tenant_context)
       (Some (sample_entry ''error'' None)) []) =
     Some (sample_entry ''error'' (Some (Finite 1000))) \<and>
   filter is_DateNow (events (MultiLoggingConnector_log warn_error_multi 1000 []
       (Some tenant_context) (Some (sample_entry ''error'' None)) [])) = [DateNow 1000]"
proof -
  have h1: "\<not> tenant_missing_or_empty (Some tenant_context)"
    by (simp add: tenant_missing_or_empty_def tenant_context_def)
  have h2: "level (sample_entry ''error'' None) \<in> set (multi_levels warn_error_multi)"
    by (simp add: sample_entry_def warn_error_multi_def)
  have h3: "ts (sample_entry ''error'' None) = None"
    by (simp add: sample_entry_def)
  have upd: "(sample_entry ''error'' None)\<lparr>ts := Some (Finite 1000)\<rparr> =
      sample_entry ''error'' (Some (Finite 1000))"
    by (simp add: sample_entry_def)
  show ?thesis
    using h1 h2 h3 multi_log_stamps_missing_timestamp [OF h1 h2 h3, of 1000 "[]" "[]"]
    by (simp add: upd)
qed



text \<open>
  C9. A timestamp already present on a log entry is never overwritten: for every entry
  whose \<^verbatim>\<open>ts\<close> is set before a call of \<^verbatim>\<open>MultiLoggingConnector.log\<close>, whatever the context and
  the enabled levels, \<^verbatim>\<open>ts\<close> has its original value after the call, and the clock has not
  been read.
\<close>

theorem multi_log_keeps_present_timestamp:
  assumes "ts e = Some t"
  shows "map_option ts
           (entry_after (MultiLoggingConnector_log this now sched requestContext (Some e) s)) =
           Some (Some t) \<and>
         filter is_DateNow
           (events (MultiLoggingConnector_log this now sched requestContext (Some e) s)) = []"
  using assms
  by (simp add: MultiLoggingConnector_log_def Guards_object_def Guards_stringValue_def
      split_beta start_all_no_clock allSettled_no_clock split: option.splits)

theorem multi_log_keeps_present_timestamp_witness:
  "ts (sample_entry ''error'' (Some (Finite 42))) = Some (Finite 42) \<and>
   map_option ts (entry_after (MultiLoggingConnector_log warn_error_multi 1000 []
       (Some tenant_context) (Some (sample_entry ''error'' (Some (Finite 42)))) [])) =
     Some (Some (Finite 42))"
proof -
  have h: "ts (sample_entry ''error'' (Some (Finite 42))) = Some (Finite 42)"
    by (simp add: sample_entry_def)
  show ?thesis
    using h multi_log_keeps_present_timestamp [OF h, of warn_error_multi 1000 "[]"
        "Some tenant_context" "[]"]
    by simp
qed

section \<open>MultiLoggingConnector.query\<close>

text \<open>
  C4. For a multiplexer with sub-connectors \<open>[A, B, C]\<close> in construction order, where
  \<open>A\<close>'s \<^verbatim>\<open>query\<close> fails with an error named \<^verbatim>\<open>NotImplementedError\<close> and \<open>B\<close>'s \<^verbatim>\<open>query\<close> succeeds,
  \<^verbatim>\<open>MultiLoggingConnector.query\<close> returns \<open>B\<close>'s result unchanged, having called \<open>A\<close> and then
  \<open>B\<close> with its own arguments and never \<open>C\<close>: the state is the one \<open>B\<close> left.
\<close>

theorem multi_query_first_responder_wins:
  assumes "loggingConnectors this = [A, B, C]"
    and "query A requestContext conds sortProperties properties cur pgSize s = (Inl err, s1)"
    and "isErrorName err NotImplementedError_CLASS_NAME"
    and "query B requestContext conds sortProperties properties cur pgSize s1 = (Inr r, s2)"
  shows "MultiLoggingConnector_query this requestContext conds sortProperties properties
           cur pgSize s =
         \<lparr>result = Inr r,
          events =
            [QueryCall 0 \<lparr>arg_requestContext = requestContext, arg_conditions = conds,
                          arg_sortProperties = sortProperties, arg_properties = properties,
                          arg_cursor = cur, arg_pageSize = pgSize\<rparr> (Inl err),
             QueryCall 1 \<lparr>arg_requestContext = requestContext, arg_conditions = conds,
                          arg_sortProperties = sortProperties, arg_properties = properties,
                          arg_cursor = cur, arg_pageSize = pgSize\<rparr> (Inr r)],
          state = s2\<rparr>"
  using assms by (simp add: MultiLoggingConnector_query_def)

theorem multi_query_first_responder_wins_witness:
  "MultiLoggingConnector_query console_first_multi (Some tenant_context) None None None None
     (Some (Finite 10)) [] =
   \<lparr>result = Inr \<lparr>entities = [], cursor = None, pageSize = Some (Finite 10),
                   totalEntities = Finite 0\<rparr>,
    events =
      [QueryCall 0 \<lparr>arg_requestContext = Some tenant_context, arg_conditions = None,
                    arg_sortProperties = None, arg_properties = None,
                    arg_cursor = None, arg_pageSize = Some (Finite 10)\<rparr>
         (Inl (NotImplementedError ''ConsoleLoggingConnector'' ''query'')),
       QueryCall 1 \<lparr>arg_requestContext = Some tenant_context, arg_conditions = None,
                    arg_sortProperties = None, arg_properties = None,
                    arg_cursor = None, arg_pageSize = Some (Finite 10)\<rparr>
         (Inr \<lparr>entities = [], cursor = None, pageSize = Some (Finite 10),
                totalEntities = Finite 0\<rparr>)],
    state = [''console:query'', ''db:query'']\<rparr>"
proof -
  have h1: "loggingConnectors console_first_multi =
      [console_connector, memory_connector ''db'', broken_connector]"
    by (simp add: console_first_multi_def)
  have h2: "query console_connector (Some tenant_context) None None None None
      (Some (Finite 10)) [] =
      (Inl (NotImplementedError ''ConsoleLoggingConnector'' ''query''), [''console:query''])"
    by (simp add: console_connector_def)
  have h3: "isErrorName (NotImplementedError ''ConsoleLoggingConnector'' ''query'')
      NotImplementedError_CLASS_NAME"
    by (simp add: isErrorName_def NotImplementedError_def)
  have h4: "query (memory_connector ''db'') (Some tenant_context) None None None None
      (Some (Finite 10)) [''console:query''] =
      (Inr \<lparr>entities = [], cursor = None, pageSize = Some (Finite 10),
             totalEntities = Finite 0\<rparr>,
       [''console:query'', ''db:query''])"
    by (simp add: memory_connector_def)
  show ?thesis
    using multi_query_first_responder_wins [OF h1 h2 h3 h4] by simp
qed

text \<open>
  C5. If every sub-connector's \<^verbatim>\<open>query\<close> fails with an error named \<^verbatim>\<open>NotImplementedError\<close>,
  \<^verbatim>\<open>MultiLoggingConnector.query\<close> calls the \<^verbatim>\<open>query\<close> of every one of them, in construction
  order and each on the state the one before it left, and then fails with a
  \<^verbatim>\<open>NotImplementedError\<close> whose source is the multiplexer and whose method is \<^verbatim>\<open>query\<close>: the
  calls recorded are those of positions \<open>0\<close> to \<open>n - 1\<close> with the error each of them gave, and
  the state is the one the last of them left.
\<close>

theorem multi_query_all_not_implemented:
  assumes "\<forall>c \<in> set (loggingConnectors this). \<forall>s'. \<exists>err.
             fst (query c requestContext conds sortProperties properties cur pgSize s') = Inl err \<and>
             isErrorName err NotImplementedError_CLASS_NAME"
  shows "result (MultiLoggingConnector_query this requestContext conds sortProperties properties
           cur pgSize s) =
           Inl (NotImplementedError MultiLoggingConnector_CLASS_NAME ''query'') \<and>
         map callee (events (MultiLoggingConnector_query this requestContext conds sortProperties
           properties cur pgSize s)) = map Some [0..<length (loggingConnectors this)] \<and>
         events (MultiLoggingConnector_query this requestContext conds sortProperties properties
           cur pgSize s) =
           map (\<lambda>i. QueryCall i
                  \<lparr>arg_requestContext = requestContext, arg_conditions = conds,
                   arg_sortProperties = sortProperties, arg_properties = properties,
                   arg_cursor = cur, arg_pageSize = pgSize\<rparr>
                  (fst (query (loggingConnectors this ! i) requestContext conds sortProperties
                     properties cur pgSize
                     (foldl (\<lambda>s' c. snd (query c requestContext conds sortProperties properties
                        cur pgSize s')) s (take i (loggingConnectors this))))))
             [0..<length (loggingConnectors this)] \<and>
         state (MultiLoggingConnector_query this requestContext conds sortProperties properties
           cur pgSize s) =
           foldl (\<lambda>s' c. snd (query c requestContext conds sortProperties properties cur pgSize
              s')) s (loggingConnectors this)"
proof -
  let ?a = "\<lparr>arg_requestContext = requestContext, arg_conditions = conds,
        arg_sortProperties = sortProperties, arg_properties = properties,
        arg_cursor = cur, arg_pageSize = pgSize\<rparr>"
  have "\<forall>c \<in> set (loggingConnectors this). \<forall>s'. \<exists>err.
             fst (query c (arg_requestContext ?a) (arg_conditions ?a) (arg_sortProperties ?a)
                    (arg_properties ?a) (arg_cursor ?a) (arg_pageSize ?a) s') = Inl err \<and>
             isErrorName err NotImplementedError_CLASS_NAME"
    using assms by simp
  from query_loop_all_not_implemented [OF this, of 0 s]
  have loop: "result (query_loop 0 (loggingConnectors this) ?a s) =
        Inl (NotImplementedError MultiLoggingConnector_CLASS_NAME ''query'')"
    "events (query_loop 0 (loggingConnectors this) ?a s) =
        map (\<lambda>i. QueryCall i ?a
               (fst (query (loggingConnectors this ! i) requestContext conds sortProperties
                  properties cur pgSize
                  (foldl (\<lambda>s' c. snd (query c requestContext conds sortProperties properties
                     cur pgSize s')) s (take i (loggingConnectors this))))))
          [0..<length (loggingConnectors this)]"
    "state (query_loop 0 (loggingConnectors this) ?a s) =
        foldl (\<lambda>s' c. snd (query c requestContext conds sortProperties properties cur pgSize
           s')) s (loggingConnectors this)"
    by simp_all
  have "length (events (query_loop 0 (loggingConnectors this) ?a s)) =
      length (loggingConnectors this)"
    by (simp add: loop(2))
  with query_loop_callees [of 0 "loggingConnectors this" ?a s]
  have "map callee (events (query_loop 0 (loggingConnectors this) ?a s)) =
      map Some [0..<length (loggingConnectors this)]"
    by simp
  with loop show ?thesis
    by (simp add: MultiLoggingConnector_query_def)
qed

theorem multi_query_all_not_implemented_witness:
  "list_all (\<lambda>c. \<forall>s'. \<exists>err.
      fst (query c (Some tenant_context) None None None None None s') = Inl err \<and>
      isErrorName err NotImplementedError_CLASS_NAME) (loggingConnectors consoles_multi) \<and>
   MultiLoggingConnector_query consoles_multi (Some tenant_context) None None None None None
       [''earlier''] =
     \<lparr>result = Inl (BaseError ''NotImplementedError'' ''MultiLoggingConnector'' ''query''),
      events =
        [QueryCall 0 \<lparr>arg_requestContext = Some tenant_context, arg_conditions = None,
                      arg_sortProperties = None, arg_properties = None,
                      arg_cursor = None, arg_pageSize = None\<rparr>
           (Inl (BaseError ''NotImplementedError'' ''ConsoleLoggingConnector'' ''query'')),
         QueryCall 1 \<lparr>arg_requestContext = Some tenant_context, arg_conditions = None,
                      arg_sortProperties = None, arg_properties = None,
                      arg_cursor = None, arg_pageSize = None\<rparr>
           (Inl (BaseError ''NotImplementedError'' ''ConsoleLoggingConnector'' ''query''))],
      state = [''earlier'', ''console:query'', ''console:query'']\<rparr>"
proof -
  have h: "\<forall>c \<in> set (loggingConnectors consoles_multi). \<forall>s'. \<exists>err.
      fst (query c (Some tenant_context) None None None None None s') = Inl err \<and>
      isErrorName err NotImplementedError_CLASS_NAME"
    by (simp add: consoles_multi_def console_connector_def isErrorName_def NotImplementedError_def)
  have cs: "loggingConnectors consoles_multi = [console_connector, console_connector]"
    by (simp add: consoles_multi_def)
  have upt: "[0..<2] = [0, Suc 0]"
    by (simp add: upt_conv_Cons)
  show ?thesis
    using h multi_query_all_not_implemented [OF h, of "[''earlier'']"]
    by (cases "MultiLoggingConnector_query consoles_multi (Some tenant_context) None None None
          None None [''earlier'']")
       (simp add: cs upt list_all_iff console_connector_def NotImplementedError_def
          NotImplementedError_CLASS_NAME_def MultiLoggingConnector_CLASS_NAME_def)
qed



section \<open>Validation of the request context\<close>

text \<open>
  \<^verbatim>\<open>MultiLoggingConnector.query\<close> has no guard: with a context that has no tenant id it calls
  its sub-connectors and returns what the first responder returns. \<^verbatim>\<open>LoggingService.log\<close>
  guards the tenant id with \<^verbatim>\<open>Guards.string\<close>, which an empty string passes: the connector's
  \<^verbatim>\<open>log\<close> runs.
\<close>

theorem missing_tenant_not_always_rejected:
  "tenant_missing (Some \<lparr>tenantId = None\<rparr>) \<and>
   \<not> rejected (MultiLoggingConnector_query console_first_multi (Some \<lparr>tenantId = None\<rparr>)
        None None None None None []) [] \<and>
   map callee (events (MultiLoggingConnector_query console_first_multi (Some \<lparr>tenantId = None\<rparr>)
        None None None None None [])) = [Some 0, Some 1] \<and>
   state (MultiLoggingConnector_query console_first_multi (Some \<lparr>tenantId = None\<rparr>)
        None None None None None []) = [''console:query'', ''db:query''] \<and>
   tenant_missing_or_empty (Some \<lparr>tenantId = Some ''''\<rparr>) \<and>
   LoggingService_log memory_service (Some \<lparr>tenantId = Some ''''\<rparr>)
       (Some (sample_entry ''info'' None)) [] =
     \<lparr>result = Inr None,
      events = [LogCall () (Some \<lparr>tenantId = Some ''''\<rparr>) (Some (sample_entry ''info'' None)),
                LogSettled () (Inr None)],
      state = [''db:log'']\<rparr>"
  by (simp add: tenant_missing_def tenant_missing_or_empty_def rejected_def
      MultiLoggingConnector_query_def LoggingService_log_def guards_defs fixture_defs
      NotImplementedError_def NotImplementedError_CLASS_NAME_def)

text \<open>
  C8, amended. \<^verbatim>\<open>LoggingService.log\<close> and \<^verbatim>\<open>LoggingService.query\<close>, called with a context that
  is absent or has no tenant id, and \<^verbatim>\<open>MultiLoggingConnector.log\<close>, called with a context that
  is absent or whose tenant id is missing or empty, fail with a \<^verbatim>\<open>GuardError\<close>; no connector
  operation is called and the state is unchanged.
\<close>

theorem missing_tenant_rejected:
  "(tenant_missing requestContext \<longrightarrow>
      rejected (LoggingService_log service requestContext logEntry s) s \<and>
      rejected (LoggingService_query service requestContext lvl src timeStart timeEnd cur pgSize s)
        s) \<and>
   (tenant_missing_or_empty requestContext \<longrightarrow>
      rejected (MultiLoggingConnector_log multi now sched requestContext logEntry s) s)"
  by (cases requestContext)
     (auto simp: tenant_missing_def tenant_missing_or_empty_def rejected_def
        LoggingService_log_def LoggingService_query_def MultiLoggingConnector_log_def guards_defs)

theorem missing_tenant_rejected_witness:
  "tenant_missing (Some \<lparr>tenantId = None\<rparr>) \<and>
   rejected (LoggingService_log memory_service (Some \<lparr>tenantId = None\<rparr>)
      (Some (sample_entry ''error'' None)) [''earlier'']) [''earlier''] \<and>
   rejected (LoggingService_query memory_service (Some \<lparr>tenantId = None\<rparr>)
      (Some ''error'') None None None None None [''earlier'']) [''earlier''] \<and>
   tenant_missing_or_empty (Some \<lparr>tenantId = Some ''''\<rparr>) \<and>
   rejected (MultiLoggingConnector_log warn_error_multi 1000 [] (Some \<lparr>tenantId = Some ''''\<rparr>)
      (Some (sample_entry ''error'' None)) [''earlier'']) [''earlier'']"
proof -
  have h1: "tenant_missing (Some \<lparr>tenantId = None\<rparr>)"
    by (simp add: tenant_missing_def)
  have h2: "tenant_missing_or_empty (Some \<lparr>tenantId = Some ''''\<rparr>)"
    by (simp add: tenant_missing_or_empty_def)
  show ?thesis
    using h1 h2
      missing_tenant_rejected [of "Some \<lparr>tenantId = None\<rparr>" memory_service
        "Some (sample_entry ''error'' None)" "[''earlier'']" "Some ''error''" None None None
        None None warn_error_multi 1000 "[]"]
      missing_tenant_rejected [of "Some \<lparr>tenantId = Some ''''\<rparr>" memory_service
        "Some (sample_entry ''error'' None)" "[''earlier'']" "Some ''error''" None None None
        None None warn_error_multi 1000 "[]"]
    by simp
qed

end
